theory Spec2Isabelle
  imports Main
begin

section \<open>The provisioning engine as seen by the declaration pass\<close>

text \<open>
  The program is one declaration pass (\<^verbatim>\<open>main\<close> in \<^verbatim>\<open>main.go\<close>) over the Pulumi
  engine. Every call of the engine that the pass makes is modelled by its result:
  \<^item> a lookup (\<^verbatim>\<open>ec2.LookupVpc\<close>, \<^verbatim>\<open>ec2.GetSubnetIds\<close>, \<^verbatim>\<open>ecr.GetCredentials\<close>) returns a
    value or an error;
  \<^item> a resource constructor (\<^verbatim>\<open>ecs.NewCluster\<close>, ...) registers the resource in the context
    and returns its handle, or returns an error and registers nothing;
  \<^item> an attribute of a resource (\<^verbatim>\<open>cluster.Arn\<close>) is an output: the resources it comes from
    and the value (or the error) it resolves to once they are realized.
  What the engine and the cloud answer is the environment \<open>env\<close>, a parameter of every
  function: the theorems hold for every environment.
\<close>

datatype error =
    LookupError string
  | CredentialFetchError string
  | CorruptInputError
  | ImageBuildError string
  | ResourceDeclarationError string

text \<open>
  \<open>CorruptInputError\<close> is the error of \<^verbatim>\<open>base64.StdEncoding.DecodeString\<close> (the spec's
  \<^verbatim>\<open>DecodeError\<close>); Go's value also carries the offset of the offending byte, which no
  caller in this program reads.
\<close>

datatype 'a pulumi_output = Output (deps: "string list") (resolved: "error + 'a")

datatype pvalue =
    PString string
  | PInt int
  | PBool bool
  | PArray "pvalue list"
  | PStruct "(string \<times> pvalue) list"
  | POutput "pvalue pulumi_output"

record resource =
  rtype :: string
  rname :: string
  args :: "(string \<times> pvalue) list"
  dependsOn :: "string list"

record ctx =
  resources :: "resource list"
  exports :: "(string \<times> pvalue) list"

record env =
  LookupVpc :: "bool \<Rightarrow> error + string"
  GetSubnetIds :: "string \<Rightarrow> error + string list"
  GetCredentials :: "string \<Rightarrow> error + string"
  registerError :: "string \<Rightarrow> error option"
  attribute :: "string \<Rightarrow> string \<Rightarrow> error + string"
  isPrintTable :: "nat \<Rightarrow> bool"

text \<open>
  \<open>LookupVpc env d\<close> is the identifier of the network found with \<^verbatim>\<open>Default: d\<close>,
  \<open>GetSubnetIds env vpc\<close> the \<^verbatim>\<open>Ids\<close> of the result, \<open>GetCredentials env rid\<close> its
  \<^verbatim>\<open>AuthorizationToken\<close>. \<open>registerError env n\<close> is the error with which the engine refuses
  the resource of logical name \<open>n\<close>, if it does; \<open>attribute env n f\<close> is what the field
  \<open>f\<close> of the resource \<open>n\<close> resolves to. \<open>isPrintTable env r\<close> stands for the Unicode
  tables of Go's \<^verbatim>\<open>strconv\<close> (\<^verbatim>\<open>isPrint16\<close>, \<^verbatim>\<open>isNotPrint16\<close>, \<^verbatim>\<open>isPrint32\<close>,
  \<^verbatim>\<open>isNotPrint32\<close>, \<^verbatim>\<open>isGraphic\<close>): whether the rune \<open>r\<close> above \<^verbatim>\<open>0xFF\<close> is printable.
\<close>

definition attr :: "env \<Rightarrow> string \<Rightarrow> string \<Rightarrow> string pulumi_output" where
  "attr env n f = Output [n] (attribute env n f)"

definition ApplyT :: "('a \<Rightarrow> error + 'b) \<Rightarrow> 'a pulumi_output \<Rightarrow> 'b pulumi_output" where
  "ApplyT f out =
     Output (deps out) (case resolved out of Inl e \<Rightarrow> Inl e | Inr v \<Rightarrow> f v)"

definition ToStringOutput :: "string pulumi_output \<Rightarrow> pvalue" where
  "ToStringOutput out = POutput (ApplyT (\<lambda>s. Inr (PString s)) out)"

definition RegisterResource ::
  "env \<Rightarrow> string \<Rightarrow> string \<Rightarrow> (string \<times> pvalue) list \<Rightarrow> string list \<Rightarrow> ctx
    \<Rightarrow> (error + string) \<times> ctx" where
  "RegisterResource env t n as opts c =
     (case registerError env n of
        Some e \<Rightarrow> (Inl e, c)
      | None \<Rightarrow>
          (Inr n, c\<lparr>resources :=
             resources c @ [\<lparr>rtype = t, rname = n, args = as, dependsOn = opts\<rparr>]\<rparr>))"

definition Export :: "string \<Rightarrow> pvalue \<Rightarrow> ctx \<Rightarrow> ctx" where
  "Export k v c = c\<lparr>exports := exports c @ [(k, v)]\<rparr>"

section \<open>The constants of \<^verbatim>\<open>main.go\<close>\<close>

definition SecurityGroupName :: string where "SecurityGroupName = ''web-sg''"
definition EcsClusterName :: string where "EcsClusterName = ''app-cluster''"
definition TaskExecRoleName :: string where "TaskExecRoleName = ''task-exec-role''"
definition TaskExecPolicyName :: string where "TaskExecPolicyName = ''task-exec-policy''"
definition EcrRepositoryName :: string where "EcrRepositoryName = ''app-repo''"
definition EcsTaskName :: string where "EcsTaskName = ''app-task''"
definition EcsServiceName :: string where "EcsServiceName = ''app-service''"
definition ContainerName :: string where "ContainerName = ''my-app''"
definition ImageName :: string where "ImageName = ''my-image''"
definition LoadBalancerName :: string where "LoadBalancerName = ''web-lb''"
definition LoadBalancerTargetGroupName :: string where "LoadBalancerTargetGroupName = ''web-tg''"
definition LoadBalancerListenerName :: string where "LoadBalancerListenerName = ''web-listener''"
definition ReplicasCount :: int where "ReplicasCount = 5"

section \<open>The library functions the program calls\<close>

subsection \<open>\<^verbatim>\<open>encoding/base64\<close>: the standard encoding, padded\<close>

text \<open>
  \<open>EncodeToString\<close> and \<open>DecodeString\<close> follow \<^verbatim>\<open>(*Encoding).Encode\<close> and
  \<^verbatim>\<open>(*Encoding).decodeQuantum\<close> of \<^verbatim>\<open>base64.StdEncoding\<close>: four characters of the alphabet
  carry 24 bits, \<^verbatim>\<open>=\<close> pads the last group, \<^verbatim>\<open>\r\<close> and \<^verbatim>\<open>\n\<close> are skipped, any other
  byte is corrupt input. Bytes are \<open>char\<close>s, read as numbers by \<open>of_char\<close>; the shifts and
  masks of the Go code are written as multiplication, \<open>div\<close> and \<open>mod\<close> (the operands are
  below \<open>2 ^ 24\<close>, so nothing overflows). \<open>decode dbuf src\<close> has read the sextets \<open>dbuf\<close> of
  the current group.
\<close>

definition encodeStd :: string where
  "encodeStd = ''ABCDEFGHIJKLMNOPQRSTUVWXYZabcdefghijklmnopqrstuvwxyz0123456789+/''"

definition decodeMap :: "char \<Rightarrow> nat" where
  "decodeMap c = (case map_of (zip encodeStd [0..<64]) c of Some i \<Rightarrow> i | None \<Rightarrow> 255)"

fun EncodeToString :: "string \<Rightarrow> string" where
  "EncodeToString (a # b # c # src) =
     (let val = of_char a * 65536 + of_char b * 256 + of_char c in
      encodeStd ! (val div 262144 mod 64) # encodeStd ! (val div 4096 mod 64) #
      encodeStd ! (val div 64 mod 64) # encodeStd ! (val mod 64) # EncodeToString src)"
| "EncodeToString [a, b] =
     (let val = of_char a * 65536 + of_char b * 256 in
      [encodeStd ! (val div 262144 mod 64), encodeStd ! (val div 4096 mod 64),
       encodeStd ! (val div 64 mod 64), CHR ''=''])"
| "EncodeToString [a] =
     (let val = of_char a * 65536 in
      [encodeStd ! (val div 262144 mod 64), encodeStd ! (val div 4096 mod 64),
       CHR ''='', CHR ''=''])"
| "EncodeToString [] = []"

fun skipNewlines :: "string \<Rightarrow> string" where
  "skipNewlines [] = []"
| "skipNewlines (c # src) =
     (if c = CHR 0x0A \<or> c = CHR 0x0D then skipNewlines src else c # src)"

definition quantum :: "nat list \<Rightarrow> string" where
  "quantum dbuf =
     (let val = dbuf ! 0 * 262144 + dbuf ! 1 * 4096 + dbuf ! 2 * 64 + dbuf ! 3 in
      [char_of (val div 65536), char_of (val div 256), char_of val])"

fun decode :: "nat list \<Rightarrow> string \<Rightarrow> error + string" where
  "decode dbuf [] = (if dbuf = [] then Inr [] else Inl CorruptInputError)"
| "decode dbuf (c # src) =
     (if decodeMap c \<noteq> 255 then
        (if length dbuf < 3 then decode (dbuf @ [decodeMap c]) src
         else (case decode [] src of
                 Inl e \<Rightarrow> Inl e
               | Inr rest \<Rightarrow> Inr (quantum (dbuf @ [decodeMap c]) @ rest)))
      else if c = CHR 0x0A \<or> c = CHR 0x0D then decode dbuf src
      else if c \<noteq> CHR ''='' then Inl CorruptInputError
      else if length dbuf < 2 then Inl CorruptInputError
      else if length dbuf = 2 then
        (case skipNewlines src of
           [] \<Rightarrow> Inl CorruptInputError
         | p # src' \<Rightarrow>
             if p \<noteq> CHR ''='' then Inl CorruptInputError
             else if skipNewlines src' \<noteq> [] then Inl CorruptInputError
             else Inr (take 1 (quantum (dbuf @ [0, 0]))))
      else
        (if skipNewlines src \<noteq> [] then Inl CorruptInputError
         else Inr (take 2 (quantum (dbuf @ [0])))))"

definition DecodeString :: "string \<Rightarrow> error + string" where
  "DecodeString s = decode [] s"


subsection \<open>\<^verbatim>\<open>strings.Split\<close> with a one-byte separator\<close>

fun Split :: "string \<Rightarrow> char \<Rightarrow> string list" where
  "Split [] sep = [[]]"
| "Split (c # s) sep =
     (if c = sep then [] # Split s sep
      else (case Split s sep of [] \<Rightarrow> [[c]] | x # xs \<Rightarrow> (c # x) # xs))"

subsection \<open>\<^verbatim>\<open>pulumi.StringArrayOutput.Index\<close>\<close>

text \<open>
  The element at the index when it is in bounds, the zero value of the element type (the
  empty string) when it is not: the SDK's \<^verbatim>\<open>Index\<close> never fails.
\<close>

definition Index :: "int \<Rightarrow> string list pulumi_output \<Rightarrow> string pulumi_output" where
  "Index i out =
     ApplyT (\<lambda>arr. Inr (if 0 \<le> i \<and> i < int (length arr) then arr ! nat i else [])) out"

subsection \<open>\<^verbatim>\<open>unicode/utf8\<close> and \<^verbatim>\<open>strconv.Quote\<close>\<close>

text \<open>
  \<^verbatim>\<open>fmt\<close>'s verb \<^verbatim>\<open>%q\<close> prints a string with \<^verbatim>\<open>strconv.Quote\<close>
  (\<^verbatim>\<open>appendQuotedWith\<close> with the quote \<^verbatim>\<open>"\<close>, neither ASCII-only nor graphic-only): the
  string is read rune by rune; \<^verbatim>\<open>"\<close> and \<^verbatim>\<open>\\<close> get a backslash, a printable rune is copied, the
  others become \<^verbatim>\<open>\a \b \f \n \r \t \v\<close>, \<^verbatim>\<open>\xNN\<close>, \<^verbatim>\<open>\uNNNN\<close> or \<^verbatim>\<open>\UNNNNNNNN\<close>.
  Runes are natural numbers. \<open>first\<close> and \<open>acceptRanges\<close> are the tables of
  \<^verbatim>\<open>utf8.DecodeRuneInString\<close>, whose result is the rune and its width.
\<close>

definition lowerhex :: string where "lowerhex = ''0123456789abcdef''"

definition RuneError :: nat where "RuneError = 0xFFFD"
definition MaxRune :: nat where "MaxRune = 0x10FFFF"

definition first :: "nat \<Rightarrow> nat" where
  "first b =
     (if b < 0x80 then 0xF0
      else if b < 0xC2 then 0xF1
      else if b < 0xE0 then 0x02
      else if b = 0xE0 then 0x13
      else if b < 0xED then 0x03
      else if b = 0xED then 0x23
      else if b < 0xF0 then 0x03
      else if b = 0xF0 then 0x34
      else if b < 0xF4 then 0x04
      else if b = 0xF4 then 0x44
      else 0xF1)"

definition acceptRanges :: "nat \<Rightarrow> nat \<times> nat" where
  "acceptRanges i =
     (if i = 1 then (0xA0, 0xBF)
      else if i = 2 then (0x80, 0x9F)
      else if i = 3 then (0x90, 0xBF)
      else if i = 4 then (0x80, 0x8F)
      else (0x80, 0xBF))"

definition DecodeRuneInString :: "string \<Rightarrow> nat \<times> nat" where
  "DecodeRuneInString s =
     (if length s < 1 then (RuneError, 0)
      else
        let s0 = of_char (s ! 0); x = first s0 in
        if x \<ge> 0xF0 then (if x = 0xF1 then RuneError else s0, 1)
        else
          let sz = x mod 8; lo = fst (acceptRanges (x div 16)); hi = snd (acceptRanges (x div 16)) in
          if length s < sz then (RuneError, 1)
          else
            let s1 = of_char (s ! 1) in
            if s1 < lo \<or> hi < s1 then (RuneError, 1)
            else if sz \<le> 2 then (s0 mod 32 * 64 + s1 mod 64, 2)
            else
              let s2 = of_char (s ! 2) in
              if s2 < 0x80 \<or> 0xBF < s2 then (RuneError, 1)
              else if sz \<le> 3 then (s0 mod 16 * 4096 + s1 mod 64 * 64 + s2 mod 64, 3)
              else
                let s3 = of_char (s ! 3) in
                if s3 < 0x80 \<or> 0xBF < s3 then (RuneError, 1)
                else (s0 mod 8 * 262144 + s1 mod 64 * 4096 + s2 mod 64 * 64 + s3 mod 64, 4))"

definition AppendRune :: "nat \<Rightarrow> string" where
  "AppendRune r =
     (if r \<le> 0x7F then [char_of r]
      else if r \<le> 0x7FF then [char_of (0xC0 + r div 64), char_of (0x80 + r mod 64)]
      else if r > MaxRune \<or> (0xD800 \<le> r \<and> r \<le> 0xDFFF) then
        [char_of (0xE0 + RuneError div 4096), char_of (0x80 + RuneError div 64 mod 64),
         char_of (0x80 + RuneError mod 64)]
      else if r \<le> 0xFFFF then
        [char_of (0xE0 + r div 4096), char_of (0x80 + r div 64 mod 64), char_of (0x80 + r mod 64)]
      else
        [char_of (0xF0 + r div 262144), char_of (0x80 + r div 4096 mod 64),
         char_of (0x80 + r div 64 mod 64), char_of (0x80 + r mod 64)])"

definition IsPrint :: "(nat \<Rightarrow> bool) \<Rightarrow> nat \<Rightarrow> bool" where
  "IsPrint tab r =
     (if r \<le> 0xFF then
        (if 0x20 \<le> r \<and> r \<le> 0x7E then True
         else if 0xA1 \<le> r \<and> r \<le> 0xFF then r \<noteq> 0xAD
         else False)
      else tab r)"

definition ValidRune :: "nat \<Rightarrow> bool" where
  "ValidRune r = (r < 0xD800 \<or> (0xDFFF < r \<and> r \<le> MaxRune))"

definition hexdigits :: "nat \<Rightarrow> nat \<Rightarrow> string" where
  "hexdigits n r = map (\<lambda>i. lowerhex ! (r div 16 ^ i mod 16)) (rev [0..<n])"

definition appendEscapedRune :: "(nat \<Rightarrow> bool) \<Rightarrow> nat \<Rightarrow> string" where
  "appendEscapedRune tab r =
     (if r = 0x22 \<or> r = 0x5C then [CHR 0x5C, char_of r]
      else if IsPrint tab r then AppendRune r
      else if r = 0x07 then [CHR 0x5C, CHR ''a'']
      else if r = 0x08 then [CHR 0x5C, CHR ''b'']
      else if r = 0x0C then [CHR 0x5C, CHR ''f'']
      else if r = 0x0A then [CHR 0x5C, CHR ''n'']
      else if r = 0x0D then [CHR 0x5C, CHR ''r'']
      else if r = 0x09 then [CHR 0x5C, CHR ''t'']
      else if r = 0x0B then [CHR 0x5C, CHR ''v'']
      else if r < 0x20 \<or> r = 0x7F then [CHR 0x5C, CHR ''x''] @ hexdigits 2 r
      else if \<not> ValidRune r then [CHR 0x5C, CHR ''u''] @ hexdigits 4 RuneError
      else if r < 0x10000 then [CHR 0x5C, CHR ''u''] @ hexdigits 4 r
      else [CHR 0x5C, CHR ''U''] @ hexdigits 8 r)"

fun appendQuoted :: "(nat \<Rightarrow> bool) \<Rightarrow> string \<Rightarrow> string" where
  "appendQuoted tab [] = []"
| "appendQuoted tab (c # s) =
     (let r0 = of_char c;
          r = (if r0 \<ge> 0x80 then fst (DecodeRuneInString (c # s)) else r0);
          width = (if r0 \<ge> 0x80 then snd (DecodeRuneInString (c # s)) else 1)
      in (if width = 1 \<and> r = RuneError then [CHR 0x5C, CHR ''x''] @ hexdigits 2 r0
          else appendEscapedRune tab r) @ appendQuoted tab (drop (width - 1) s))"

definition Quote :: "(nat \<Rightarrow> bool) \<Rightarrow> string \<Rightarrow> string" where
  "Quote tab s = [CHR 0x22] @ appendQuoted tab s @ [CHR 0x22]"


subsection \<open>\<^verbatim>\<open>fmt.Sprintf\<close> on string operands\<close>

text \<open>
  The verbs \<^verbatim>\<open>%q\<close>, \<^verbatim>\<open>%s\<close>, \<^verbatim>\<open>%v\<close> and \<^verbatim>\<open>%%\<close>, and what \<^verbatim>\<open>fmt\<close> prints for a missing
  operand, a bad verb, a lone \<^verbatim>\<open>%\<close> and operands left over. Flags, widths, precisions
  and argument indexes do not occur in \<^verbatim>\<open>main.go\<close> and are not modelled.
\<close>

fun extraOperands :: "string list \<Rightarrow> string" where
  "extraOperands [] = []"
| "extraOperands [x] = ''string='' @ x"
| "extraOperands (x # y # a) = ''string='' @ x @ '', '' @ extraOperands (y # a)"

fun Sprintf :: "(nat \<Rightarrow> bool) \<Rightarrow> string \<Rightarrow> string list \<Rightarrow> string" where
  "Sprintf tab [] [] = []"
| "Sprintf tab [] (x # a) = ''%!(EXTRA '' @ extraOperands (x # a) @ '')''"
| "Sprintf tab [c] a =
     (if c = CHR ''%'' then ''%!(NOVERB)'' @ Sprintf tab [] a else c # Sprintf tab [] a)"
| "Sprintf tab (c # v # f) a =
     (if c \<noteq> CHR ''%'' then c # Sprintf tab (v # f) a
      else if v = CHR ''%'' then CHR ''%'' # Sprintf tab f a
      else (case a of
              [] \<Rightarrow> ''%!'' @ [v] @ ''(MISSING)'' @ Sprintf tab f []
            | x # a' \<Rightarrow>
                (if v = CHR ''q'' then Quote tab x
                 else if v = CHR ''s'' \<or> v = CHR ''v'' then x
                 else ''%!'' @ [v] @ ''(string='' @ x @ '')'') @ Sprintf tab f a'))"

section \<open>Network lookup and security group\<close>

definition getDefaultVPC :: "env \<Rightarrow> error + string" where
  "getDefaultVPC env = LookupVpc env True"

fun toPulumiStringArray_loop :: "pvalue list \<Rightarrow> string list \<Rightarrow> pvalue list" where
  "toPulumiStringArray_loop res [] = res"
| "toPulumiStringArray_loop res (s # a) = toPulumiStringArray_loop (res @ [PString s]) a"

definition toPulumiStringArray :: "string list \<Rightarrow> pvalue" where
  "toPulumiStringArray a = PArray (toPulumiStringArray_loop [] a)"

definition getUnrestrictedEgress :: pvalue where
  "getUnrestrictedEgress =
     PArray [PStruct
       [(''Protocol'', PString ''-1''),
        (''FromPort'', PInt 0),
        (''ToPort'', PInt 0),
        (''CidrBlocks'', PArray [PString ''0.0.0.0/0''])]]"

definition newSecurityGroup :: "env \<Rightarrow> string \<Rightarrow> ctx \<Rightarrow> (error + string) \<times> ctx" where
  "newSecurityGroup env vpc c =
     RegisterResource env ''ec2.SecurityGroup'' SecurityGroupName
       [(''VpcId'', PString vpc),
        (''Egress'', getUnrestrictedEgress),
        (''Ingress'', PArray [PStruct
           [(''Protocol'', PString ''tcp''),
            (''FromPort'', PInt 80),
            (''ToPort'', PInt 80),
            (''CidrBlocks'', PArray [PString ''0.0.0.0/0''])]])]
       [] c"

section \<open>Execution role\<close>

definition assumeRolePolicy :: string where
  \<open>assumeRolePolicy =
     ''{'' @ [CHR 0x0A] @
     ''    "Version": "2008-10-17",'' @ [CHR 0x0A] @
     ''    "Statement": [{'' @ [CHR 0x0A] @
     ''        "Sid": "",'' @ [CHR 0x0A] @
     ''        "Effect": "Allow",'' @ [CHR 0x0A] @
     ''        "Principal": {'' @ [CHR 0x0A] @
     ''            "Service": "ecs-tasks.amazonaws.com"'' @ [CHR 0x0A] @
     ''        },'' @ [CHR 0x0A] @
     ''        "Action": "sts:AssumeRole"'' @ [CHR 0x0A] @
     ''    }]'' @ [CHR 0x0A] @
     ''}''\<close>

definition newTaskExecRole :: "env \<Rightarrow> ctx \<Rightarrow> (error + string) \<times> ctx" where
  "newTaskExecRole env c =
     (case RegisterResource env ''iam.Role'' TaskExecRoleName
             [(''AssumeRolePolicy'', PString assumeRolePolicy)] [] c of
        (Inl e, c1) \<Rightarrow> (Inl e, c1)
      | (Inr taskExecRole, c1) \<Rightarrow>
          (case RegisterResource env ''iam.RolePolicyAttachment'' TaskExecPolicyName
                  [(''Role'', ToStringOutput (attr env taskExecRole ''Name'')),
                   (''PolicyArn'', PString
                      ''arn:aws:iam::aws:policy/service-role/AmazonECSTaskExecutionRolePolicy'')]
                  [] c1 of
             (Inl e, c2) \<Rightarrow> (Inl e, c2)
           | (Inr _, c2) \<Rightarrow> (Inr taskExecRole, c2)))"

section \<open>Load balancer pipeline\<close>

definition newLoadBalancer ::
  "env \<Rightarrow> string \<Rightarrow> string \<Rightarrow> ctx
    \<Rightarrow> (error + (string list \<times> string \<times> string \<times> string)) \<times> ctx" where
  "newLoadBalancer env vpc webSg c =
     (case GetSubnetIds env vpc of
        Inl e \<Rightarrow> (Inl e, c)
      | Inr subnet \<Rightarrow>
     (case RegisterResource env ''elb.LoadBalancer'' LoadBalancerName
             [(''Subnets'', toPulumiStringArray subnet),
              (''SecurityGroups'', PArray [ToStringOutput (attr env webSg ''ID'')])]
             [] c of
        (Inl e, c1) \<Rightarrow> (Inl e, c1)
      | (Inr webLb, c1) \<Rightarrow>
     (case RegisterResource env ''elb.TargetGroup'' LoadBalancerTargetGroupName
             [(''Port'', PInt 80),
              (''Protocol'', PString ''HTTP''),
              (''TargetType'', PString ''ip''),
              (''VpcId'', PString vpc)]
             [] c1 of
        (Inl e, c2) \<Rightarrow> (Inl e, c2)
      | (Inr webTg, c2) \<Rightarrow>
     (case RegisterResource env ''elb.Listener'' LoadBalancerListenerName
             [(''LoadBalancerArn'', ToStringOutput (attr env webLb ''Arn'')),
              (''Port'', PInt 80),
              (''DefaultActions'', PArray [PStruct
                 [(''Type'', PString ''forward''),
                  (''TargetGroupArn'', ToStringOutput (attr env webTg ''Arn''))]])]
             [] c2 of
        (Inl e, c3) \<Rightarrow> (Inl e, c3)
      | (Inr webListener, c3) \<Rightarrow> (Inr (subnet, webLb, webTg, webListener), c3)))))"

section \<open>Image pipeline\<close>

definition fmtstr :: string where
  \<open>fmtstr =
     ''[{'' @ [CHR 0x0A] @
     [CHR 0x09, CHR 0x09, CHR 0x09, CHR 0x09] @ ''"name": "my-app",'' @ [CHR 0x0A] @
     [CHR 0x09, CHR 0x09, CHR 0x09, CHR 0x09] @ ''"image": %q,'' @ [CHR 0x0A] @
     [CHR 0x09, CHR 0x09, CHR 0x09, CHR 0x09] @ ''"portMappings": [{'' @ [CHR 0x0A] @
     [CHR 0x09, CHR 0x09, CHR 0x09, CHR 0x09, CHR 0x09] @ ''"containerPort": 80,'' @ [CHR 0x0A] @
     [CHR 0x09, CHR 0x09, CHR 0x09, CHR 0x09, CHR 0x09] @ ''"hostPort": 80,'' @ [CHR 0x0A] @
     [CHR 0x09, CHR 0x09, CHR 0x09, CHR 0x09, CHR 0x09] @ ''"protocol": "tcp"'' @ [CHR 0x0A] @
     [CHR 0x09, CHR 0x09, CHR 0x09, CHR 0x09] @ ''}]'' @ [CHR 0x0A] @
     [CHR 0x09, CHR 0x09, CHR 0x09] @ ''}]''\<close>

text \<open>
  The two closures of \<^verbatim>\<open>pushImageAndGetContainerDef\<close>: \<open>repoCredsFn\<close> is applied to the
  repository's registry identifier, \<open>containerDefFn\<close> to the pushed image's name.
\<close>

definition repoCredsFn :: "env \<Rightarrow> string \<Rightarrow> error + string list" where
  "repoCredsFn env rid =
     (case GetCredentials env rid of
        Inl e \<Rightarrow> Inl e
      | Inr authorizationToken \<Rightarrow>
          (case DecodeString authorizationToken of
             Inl e \<Rightarrow> Inl e
           | Inr data \<Rightarrow> Inr (Split data (CHR '':''))))"

definition containerDefFn :: "env \<Rightarrow> string \<Rightarrow> error + string" where
  "containerDefFn env name = Inr (Sprintf (isPrintTable env) fmtstr [name])"

definition repoCreds :: "env \<Rightarrow> string \<Rightarrow> string list pulumi_output" where
  "repoCreds env repo = ApplyT (repoCredsFn env) (attr env repo ''RegistryId'')"

definition repoUser :: "env \<Rightarrow> string \<Rightarrow> string pulumi_output" where
  "repoUser env repo = Index 0 (repoCreds env repo)"

definition repoPass :: "env \<Rightarrow> string \<Rightarrow> string pulumi_output" where
  "repoPass env repo = Index 1 (repoCreds env repo)"

definition pushImageAndGetContainerDef ::
  "env \<Rightarrow> string \<Rightarrow> string \<Rightarrow> ctx \<Rightarrow> (error + string pulumi_output) \<times> ctx" where
  "pushImageAndGetContainerDef env repo dockerFilePath c =
     (case RegisterResource env ''docker.Image'' ImageName
             [(''Build'', PStruct [(''Context'', PString dockerFilePath)]),
              (''ImageName'', ToStringOutput (attr env repo ''RepositoryUrl'')),
              (''Registry'', PStruct
                 [(''Server'', ToStringOutput (attr env repo ''RepositoryUrl'')),
                  (''Username'', ToStringOutput (repoUser env repo)),
                  (''Password'', ToStringOutput (repoPass env repo))])]
             [] c of
        (Inl e, c1) \<Rightarrow> (Inl e, c1)
      | (Inr img, c1) \<Rightarrow>
          (Inr (ApplyT (containerDefFn env) (attr env img ''ImageName'')), c1))"

section \<open>The declaration pass\<close>

text \<open>
  \<open>main env\<close> is the function given to \<^verbatim>\<open>pulumi.Run\<close>, run on a fresh context: the error
  it returns (\<open>None\<close> for \<^verbatim>\<open>nil\<close>) and the context it leaves. The error of
  \<^verbatim>\<open>ecs.NewService\<close> is assigned to \<^verbatim>\<open>err\<close> and never read: the pass goes on to
  \<^verbatim>\<open>ctx.Export\<close> and returns \<^verbatim>\<open>nil\<close>.
\<close>

definition main :: "env \<Rightarrow> error option \<times> ctx" where
  "main env =
     (case getDefaultVPC env of
        Inl e \<Rightarrow> (Some e, \<lparr>resources = [], exports = []\<rparr>)
      | Inr vpc \<Rightarrow>
     (case newSecurityGroup env vpc \<lparr>resources = [], exports = []\<rparr> of
        (Inl e, c1) \<Rightarrow> (Some e, c1)
      | (Inr securityGroup, c1) \<Rightarrow>
     (case RegisterResource env ''ecs.Cluster'' EcsClusterName [] [] c1 of
        (Inl e, c2) \<Rightarrow> (Some e, c2)
      | (Inr cluster, c2) \<Rightarrow>
     (case newTaskExecRole env c2 of
        (Inl e, c3) \<Rightarrow> (Some e, c3)
      | (Inr taskExecRole, c3) \<Rightarrow>
     (case newLoadBalancer env vpc securityGroup c3 of
        (Inl e, c4) \<Rightarrow> (Some e, c4)
      | (Inr (subnet, loadBalancer, targetGroup, webListener), c4) \<Rightarrow>
     (case RegisterResource env ''ecr.Repository'' EcrRepositoryName [] [] c4 of
        (Inl e, c5) \<Rightarrow> (Some e, c5)
      | (Inr repo, c5) \<Rightarrow>
     (case pushImageAndGetContainerDef env repo ''..'' c5 of
        (Inl e, c6) \<Rightarrow> (Some e, c6)
      | (Inr containerDef, c6) \<Rightarrow>
     (case RegisterResource env ''ecs.TaskDefinition'' EcsTaskName
             [(''Family'', PString ''fargate-task-definition''),
              (''Cpu'', PString ''256''),
              (''Memory'', PString ''512''),
              (''NetworkMode'', PString ''awsvpc''),
              (''RequiresCompatibilities'', PArray [PString ''FARGATE'']),
              (''ExecutionRoleArn'', ToStringOutput (attr env taskExecRole ''Arn'')),
              (''ContainerDefinitions'', ToStringOutput containerDef)]
             [] c6 of
        (Inl e, c7) \<Rightarrow> (Some e, c7)
      | (Inr appTask, c7) \<Rightarrow>
     (case RegisterResource env ''ecs.Service'' EcsServiceName
             [(''Cluster'', ToStringOutput (attr env cluster ''Arn'')),
              (''DesiredCount'', PInt ReplicasCount),
              (''LaunchType'', PString ''FARGATE''),
              (''TaskDefinition'', ToStringOutput (attr env appTask ''Arn'')),
              (''NetworkConfiguration'', PStruct
                 [(''AssignPublicIp'', PBool True),
                  (''Subnets'', toPulumiStringArray subnet),
                  (''SecurityGroups'', PArray [ToStringOutput (attr env securityGroup ''ID'')])]),
              (''LoadBalancers'', PArray [PStruct
                 [(''TargetGroupArn'', ToStringOutput (attr env targetGroup ''Arn'')),
                  (''ContainerName'', PString ContainerName),
                  (''ContainerPort'', PInt 80)]])]
             [webListener] c7 of
        (err, c8) \<Rightarrow>
          (None, Export ''url'' (ToStringOutput (attr env loadBalancer ''DnsName'')) c8))))))))))"

section \<open>Reading a declared graph\<close>

text \<open>
  The properties below are stated on what the pass leaves in the context:
  \<open>declared c n\<close> is the resource registered under the logical name \<open>n\<close>, \<open>arg r k\<close> its
  argument \<open>k\<close>, \<open>field v k\<close> the field \<open>k\<close> of a struct argument. \<open>exampleEnv\<close> is one
  environment in which every lookup and every registration succeeds; the witnesses run the
  pass in it.
\<close>

definition declared :: "ctx \<Rightarrow> string \<Rightarrow> resource option" where
  "declared c n = find (\<lambda>r. rname r = n) (resources c)"

definition arg :: "resource \<Rightarrow> string \<Rightarrow> pvalue option" where
  "arg r k = map_of (args r) k"

definition field :: "pvalue option \<Rightarrow> string \<Rightarrow> pvalue option" where
  "field v k = (case v of Some (PStruct fs) \<Rightarrow> map_of fs k | _ \<Rightarrow> None)"

definition declarationOrder :: "string list" where
  "declarationOrder =
     [SecurityGroupName, EcsClusterName, TaskExecRoleName, TaskExecPolicyName, LoadBalancerName,
      LoadBalancerTargetGroupName, LoadBalancerListenerName, EcrRepositoryName, ImageName,
      EcsTaskName, EcsServiceName]"

definition exampleEnv :: env where
  "exampleEnv =
     \<lparr>LookupVpc = (\<lambda>d. Inr ''vpc-1''),
      GetSubnetIds = (\<lambda>v. Inr [''subnet-a'', ''subnet-b'']),
      GetCredentials = (\<lambda>r. Inr ''QVdTOnNlY3JldHRva2Vu''),
      registerError = (\<lambda>n. None),
      attribute = (\<lambda>n f. Inr (n @ ''.'' @ f)),
      isPrintTable = (\<lambda>r. False)\<rparr>"

section \<open>The order of realization\<close>

text \<open>
  A resource refers to the resources whose outputs occur in its arguments (\<open>references\<close>,
  read off the arguments as the engine does) and is explicitly ordered after the resources
  of its \<^verbatim>\<open>DependsOn\<close> option (\<open>dependsOn\<close>).
\<close>

fun refs :: "pvalue \<Rightarrow> string list" where
  "refs (PString s) = []"
| "refs (PInt i) = []"
| "refs (PBool b) = []"
| "refs (PArray vs) = concat (map refs vs)"
| "refs (PStruct fs) = concat (map (\<lambda>(k, v). refs v) fs)"
| "refs (POutput out) = deps out"

definition references :: "resource \<Rightarrow> string list" where
  "references r = concat (map (\<lambda>(k, v). refs v) (args r))"

text \<open>
  Modelled from the spec: the engine that schedules the realizations is not part of the
  repository; section 5 of the spec states its guarantee, ``a resource is not realized until
  every resource whose output it references, and every resource it is explicitly ordered
  after, has completed successfully''. \<open>permitted rs realized sched\<close> says that the engine
  may realize the resources named in \<open>sched\<close>, in that order, after those in \<open>realized\<close>:
  each is a declared resource, is realized once, and comes after everything it references or
  is ordered after. A trace of a deployment, complete or cut short, is such a list.
\<close>

fun permitted :: "resource list \<Rightarrow> string list \<Rightarrow> string list \<Rightarrow> bool" where
  "permitted rs realized [] = True"
| "permitted rs realized (n # sched) =
     (case find (\<lambda>r. rname r = n) rs of
        None \<Rightarrow> False
      | Some r \<Rightarrow>
          n \<notin> set realized \<and> set (references r) \<subseteq> set realized \<and> set (dependsOn r) \<subseteq> set realized \<and>
          permitted rs (realized @ [n]) sched)"

section \<open>Properties of the declaration pass\<close>

lemmas names_defs =
  SecurityGroupName_def EcsClusterName_def TaskExecRoleName_def TaskExecPolicyName_def
  EcrRepositoryName_def EcsTaskName_def EcsServiceName_def ImageName_def
  LoadBalancerName_def LoadBalancerTargetGroupName_def LoadBalancerListenerName_def

lemmas pass_defs =
  main_def getDefaultVPC_def newSecurityGroup_def newTaskExecRole_def newLoadBalancer_def
  pushImageAndGetContainerDef_def RegisterResource_def Export_def

lemma toPulumiStringArray_loop_map:
  "toPulumiStringArray_loop res a = res @ map PString a"
  by (induction a arbitrary: res) simp_all

lemma toPulumiStringArray_map: "toPulumiStringArray a = PArray (map PString a)"
  by (simp add: toPulumiStringArray_def toPulumiStringArray_loop_map)

text \<open>When both lookups succeed and the engine accepts every resource, the pass returns
  \<^verbatim>\<open>nil\<close> and has declared the eleven resources in the order of the source.\<close>

lemma main_all_accepted:
  assumes "LookupVpc env True = Inr vpc" "GetSubnetIds env vpc = Inr ids"
    "\<forall>n. registerError env n = None"
  shows "fst (main env) = None"
    and "map rname (resources (snd (main env))) = declarationOrder"
  using assms unfolding pass_defs declarationOrder_def by simp_all

lemma exampleEnv_accepts:
  "LookupVpc exampleEnv True = Inr ''vpc-1''"
  "GetSubnetIds exampleEnv ''vpc-1'' = Inr [''subnet-a'', ''subnet-b'']"
  "\<forall>n. registerError exampleEnv n = None"
  by (simp_all add: exampleEnv_def)

lemma exampleEnv_declares:
  "n \<in> set declarationOrder \<Longrightarrow> \<exists>r. r \<in> set (resources (snd (main exampleEnv))) \<and> rname r = n"
proof -
  assume "n \<in> set declarationOrder"
  then have "n \<in> rname ` set (resources (snd (main exampleEnv)))"
    using main_all_accepted(2) [OF exampleEnv_accepts] by (metis set_map)
  then show ?thesis by auto
qed

text \<open>
  \<^bold>\<open>C1\<close> (the code departs from the claim). Every declaration before the service is followed by
  \<^verbatim>\<open>if err != nil { return err }\<close>; the error of \<^verbatim>\<open>ecs.NewService\<close> is not. When the
  lookups succeed, the engine accepts the ten resources before the service and refuses the
  service with the error \<open>e\<close>, the pass returns \<^verbatim>\<open>nil\<close>, not \<open>e\<close>, and still exports
  \<^verbatim>\<open>url\<close>.
\<close>

theorem service_error_swallowed:
  assumes "LookupVpc env True = Inr vpc" "GetSubnetIds env vpc = Inr ids"
    "\<forall>n. n \<noteq> EcsServiceName \<longrightarrow> registerError env n = None"
    "registerError env EcsServiceName = Some e"
  shows "fst (main env) = None \<and>
    map rname (resources (snd (main env))) = butlast declarationOrder \<and>
    map fst (exports (snd (main env))) = [''url'']"
  using assms unfolding pass_defs declarationOrder_def by (simp add: names_defs)

theorem service_error_swallowed_witness:
  "registerError
     (exampleEnv\<lparr>registerError := \<lambda>n. if n = EcsServiceName
        then Some (ResourceDeclarationError ''refused'') else None\<rparr>) EcsServiceName =
     Some (ResourceDeclarationError ''refused'') \<and>
   fst (main (exampleEnv\<lparr>registerError := \<lambda>n. if n = EcsServiceName
        then Some (ResourceDeclarationError ''refused'') else None\<rparr>)) = None"
  using service_error_swallowed
    [of "exampleEnv\<lparr>registerError := \<lambda>n. if n = EcsServiceName
        then Some (ResourceDeclarationError ''refused'') else None\<rparr>"
      "''vpc-1''" "[''subnet-a'', ''subnet-b'']" "ResourceDeclarationError ''refused''"]
  by (simp add: exampleEnv_def)

text \<open>
  \<^bold>\<open>C7\<close>. When both lookups succeed and the engine accepts every resource, the pass declares
  the service, and its desired count is the integer 5. The count is the constant
  \<open>ReplicasCount\<close>: in every environment, whatever the lookups, the engine and the other
  resources answer, a service that the pass declares has the desired count 5.
\<close>

theorem desired_count:
  "(LookupVpc env True = Inr vpc \<and> GetSubnetIds env vpc = Inr ids \<and>
      (\<forall>n. registerError env n = None) \<longrightarrow>
      (\<exists>svc. declared (snd (main env)) EcsServiceName = Some svc \<and>
         arg svc ''DesiredCount'' = Some (PInt 5))) \<and>
   (\<forall>r. r \<in> set (resources (snd (main env))) \<and> rname r = EcsServiceName \<longrightarrow>
      arg r ''DesiredCount'' = Some (PInt 5))"
proof (intro conjI impI allI)
  assume "LookupVpc env True = Inr vpc \<and> GetSubnetIds env vpc = Inr ids \<and>
      (\<forall>n. registerError env n = None)"
  then show "\<exists>svc. declared (snd (main env)) EcsServiceName = Some svc \<and>
         arg svc ''DesiredCount'' = Some (PInt 5)"
    unfolding pass_defs declared_def arg_def
    by (simp add: names_defs ReplicasCount_def)
next
  fix r
  assume "r \<in> set (resources (snd (main env))) \<and> rname r = EcsServiceName"
  then show "arg r ''DesiredCount'' = Some (PInt 5)"
    unfolding pass_defs arg_def
    by (auto simp: names_defs ReplicasCount_def split: sum.splits option.splits prod.splits)
qed

theorem desired_count_witness:
  "\<exists>svc. declared (snd (main exampleEnv)) EcsServiceName = Some svc \<and>
     arg svc ''DesiredCount'' = Some (PInt 5)"
  using desired_count [of exampleEnv "''vpc-1''" "[''subnet-a'', ''subnet-b'']"] exampleEnv_accepts
  by blast

text \<open>
  \<^bold>\<open>C8\<close>. When the network lookup succeeds and the engine accepts the security group, the pass
  declares it with exactly one ingress rule (protocol \<^verbatim>\<open>tcp\<close>, ports 80 to 80, source
  \<^verbatim>\<open>0.0.0.0/0\<close>) and exactly one egress rule (protocol \<^verbatim>\<open>-1\<close>, that is all protocols, ports
  0 to 0, that is all ports, destination \<^verbatim>\<open>0.0.0.0/0\<close>), whatever happens to the resources
  declared after it.
\<close>

theorem security_group_rules:
  assumes "LookupVpc env True = Inr vpc" "registerError env SecurityGroupName = None"
  shows "\<exists>sg. declared (snd (main env)) SecurityGroupName = Some sg \<and>
    arg sg ''Ingress'' = Some (PArray [PStruct
      [(''Protocol'', PString ''tcp''), (''FromPort'', PInt 80), (''ToPort'', PInt 80),
       (''CidrBlocks'', PArray [PString ''0.0.0.0/0''])]]) \<and>
    arg sg ''Egress'' = Some (PArray [PStruct
      [(''Protocol'', PString ''-1''), (''FromPort'', PInt 0), (''ToPort'', PInt 0),
       (''CidrBlocks'', PArray [PString ''0.0.0.0/0''])]])"
  using assms unfolding pass_defs declared_def arg_def
  by (auto simp: names_defs getUnrestrictedEgress_def split: sum.splits option.splits prod.splits)

theorem security_group_rules_witness:
  "\<exists>sg. declared (snd (main exampleEnv)) SecurityGroupName = Some sg \<and>
    arg sg ''Ingress'' = Some (PArray [PStruct
      [(''Protocol'', PString ''tcp''), (''FromPort'', PInt 80), (''ToPort'', PInt 80),
       (''CidrBlocks'', PArray [PString ''0.0.0.0/0''])]]) \<and>
    arg sg ''Egress'' = Some (PArray [PStruct
      [(''Protocol'', PString ''-1''), (''FromPort'', PInt 0), (''ToPort'', PInt 0),
       (''CidrBlocks'', PArray [PString ''0.0.0.0/0''])]])"
  by (rule security_group_rules [OF exampleEnv_accepts(1)]) (simp add: exampleEnv_def)

text \<open>
  \<^bold>\<open>C6\<close>. Whatever subnet list the lookup returns, when the engine accepts every resource the
  target group is declared with target type \<^verbatim>\<open>ip\<close>, port 80 and protocol \<^verbatim>\<open>HTTP\<close>, and the
  subnets of the service's network configuration are the looked-up list, element for element
  and in the same order.
\<close>

theorem target_group_and_subnets:
  assumes "LookupVpc env True = Inr vpc" "GetSubnetIds env vpc = Inr ids"
    "\<forall>n. registerError env n = None"
  shows "\<exists>tg svc.
    declared (snd (main env)) LoadBalancerTargetGroupName = Some tg \<and>
    arg tg ''TargetType'' = Some (PString ''ip'') \<and>
    arg tg ''Port'' = Some (PInt 80) \<and>
    arg tg ''Protocol'' = Some (PString ''HTTP'') \<and>
    declared (snd (main env)) EcsServiceName = Some svc \<and>
    field (arg svc ''NetworkConfiguration'') ''Subnets'' = Some (PArray (map PString ids))"
  using assms unfolding pass_defs declared_def arg_def field_def
  by (simp add: names_defs toPulumiStringArray_map)

theorem target_group_and_subnets_witness:
  "\<exists>tg svc.
    declared (snd (main exampleEnv)) LoadBalancerTargetGroupName = Some tg \<and>
    arg tg ''TargetType'' = Some (PString ''ip'') \<and>
    arg tg ''Port'' = Some (PInt 80) \<and>
    arg tg ''Protocol'' = Some (PString ''HTTP'') \<and>
    declared (snd (main exampleEnv)) EcsServiceName = Some svc \<and>
    field (arg svc ''NetworkConfiguration'') ''Subnets'' =
      Some (PArray [PString ''subnet-a'', PString ''subnet-b''])"
  using target_group_and_subnets [OF exampleEnv_accepts] by simp

section \<open>Properties of the library functions\<close>

text \<open>Decoding undoes encoding: \<open>DecodeString (EncodeToString s) = Inr s\<close> for every byte string.\<close>

lemma distinct_encodeStd: "distinct encodeStd"
  by (simp add: encodeStd_def)

lemma length_encodeStd: "length encodeStd = 64"
  by (simp add: encodeStd_def)

lemma decodeMap_encodeStd: "i < 64 \<Longrightarrow> decodeMap (encodeStd ! i) = i"
  unfolding decodeMap_def
  using map_of_zip_nth [of encodeStd "[0..<64]" i]
  by (simp add: distinct_encodeStd length_encodeStd)

lemma decodeMap_other: "c \<notin> set encodeStd \<Longrightarrow> decodeMap c = 255"
proof -
  assume "c \<notin> set encodeStd"
  then have "map_of (zip encodeStd [0..<64]) c = None"
    by (simp add: map_of_zip_is_None length_encodeStd)
  then show ?thesis by (simp add: decodeMap_def)
qed

lemma decodeMap_pad: "decodeMap (CHR ''='') = 255"
  by (rule decodeMap_other) (simp add: encodeStd_def)

lemma digits64:
  fixes v :: nat
  assumes "v < 16777216"
  shows "v div 262144 mod 64 * 262144 + v div 4096 mod 64 * 4096 + v div 64 mod 64 * 64 + v mod 64 = v"
proof -
  have 1: "v div 64 mod 64 * 64 + v mod 64 = v mod 4096"
    by (simp add: mod_mult2_eq [of v 64 64, simplified] add.commute mult.commute)
  have 2: "v div 4096 mod 64 * 4096 + v mod 4096 = v mod 262144"
    by (simp add: mod_mult2_eq [of v 4096 64, simplified] add.commute mult.commute)
  have 3: "v div 262144 mod 64 = v div 262144"
    using assms by (simp add: less_mult_imp_div_less)
  have 4: "v div 262144 * 262144 + v mod 262144 = v"
    by simp
  show ?thesis using 1 2 3 4 by linarith
qed

lemma char_of_byte: "char_of (of_char c + 256 * (k::nat)) = c"
proof -
  have "char_of (of_char c + 256 * k) = char_of ((of_char c + 256 * k) mod 256)"
    by (simp only: char_of_mod_256)
  also have "(of_char c + 256 * k) mod 256 = (of_char c :: nat)"
    by simp
  finally show ?thesis by simp
qed

text \<open>The bytes of a 24-bit value.\<close>

lemma bytes_of_val:
  fixes a b c :: char and v :: nat
  assumes "v = of_char a * 65536 + of_char b * 256 + of_char c"
  shows "[char_of (v div 65536), char_of (v div 256), char_of v] = [a, b, c]"
proof -
  have a: "(of_char a :: nat) < 256" and b: "(of_char b :: nat) < 256" and c: "(of_char c :: nat) < 256"
    by simp_all
  have 1: "v div 65536 = of_char a" unfolding assms using b c by linarith
  have 2: "v div 256 = of_char b + 256 * of_char a" unfolding assms using c by linarith
  have 3: "v = of_char c + 256 * (of_char b + 256 * of_char a)" unfolding assms by simp
  have A: "char_of (v div 65536) = a" by (simp only: 1 char_of_char)
  have B: "char_of (v div 256) = b" unfolding 2 by (rule char_of_byte)
  have C: "char_of v = c" by (subst 3) (rule char_of_byte)
  show ?thesis by (simp only: A B C)
qed

lemma quantum_digits:
  fixes v :: nat
  assumes "v < 16777216"
  shows "quantum [v div 262144 mod 64, v div 4096 mod 64, v div 64 mod 64, v mod 64] =
         [char_of (v div 65536), char_of (v div 256), char_of v]"
proof -
  have "[v div 262144 mod 64, v div 4096 mod 64, v div 64 mod 64, v mod 64] ! 0 * 262144 +
        [v div 262144 mod 64, v div 4096 mod 64, v div 64 mod 64, v mod 64] ! 1 * 4096 +
        [v div 262144 mod 64, v div 4096 mod 64, v div 64 mod 64, v mod 64] ! 2 * 64 +
        [v div 262144 mod 64, v div 4096 mod 64, v div 64 mod 64, v mod 64] ! 3 =
        v div 262144 mod 64 * 262144 + v div 4096 mod 64 * 4096 + v div 64 mod 64 * 64 + v mod 64"
    by simp
  then show ?thesis
    unfolding quantum_def Let_def by (simp only: digits64 [OF assms])
qed


lemma decode_quad:
  assumes "k0 < 64" "k1 < 64" "k2 < 64" "k3 < 64"
  shows "decode [] (encodeStd ! k0 # encodeStd ! k1 # encodeStd ! k2 # encodeStd ! k3 # rest) =
         (case decode [] rest of Inl e \<Rightarrow> Inl e | Inr r \<Rightarrow> Inr (quantum [k0, k1, k2, k3] @ r))"
  using assms by (simp add: decodeMap_encodeStd cong: sum.case_cong)

lemma decode_pad1:
  assumes "k0 < 64" "k1 < 64" "k2 < 64"
  shows "decode [] [encodeStd ! k0, encodeStd ! k1, encodeStd ! k2, CHR ''=''] =
         Inr (take 2 (quantum [k0, k1, k2, 0]))"
  using assms by (simp add: decodeMap_encodeStd decodeMap_pad)

lemma decode_pad2:
  assumes "k0 < 64" "k1 < 64"
  shows "decode [] [encodeStd ! k0, encodeStd ! k1, CHR ''='', CHR ''=''] =
         Inr (take 1 (quantum [k0, k1, 0, 0]))"
  using assms by (simp add: decodeMap_encodeStd decodeMap_pad)

lemma val_bound:
  fixes a b c :: char
  shows "(of_char a :: nat) * 65536 + of_char b * 256 + of_char c < 16777216"
proof -
  have "(of_char a :: nat) < 256" "(of_char b :: nat) < 256" "(of_char c :: nat) < 256"
    by simp_all
  then show ?thesis by linarith
qed

lemma quantum_val:
  fixes a b c :: char and v :: nat
  assumes "v = of_char a * 65536 + of_char b * 256 + of_char c"
  shows "quantum [v div 262144 mod 64, v div 4096 mod 64, v div 64 mod 64, v mod 64] = [a, b, c]"
proof -
  have "v < 16777216" unfolding assms by (rule val_bound)
  then show ?thesis by (simp only: quantum_digits bytes_of_val [OF assms])
qed

theorem DecodeString_EncodeToString: "DecodeString (EncodeToString s) = Inr s"
  unfolding DecodeString_def
proof (induction s rule: EncodeToString.induct)
  case (1 a b c src)
  define v :: nat where "v = of_char a * 65536 + of_char b * 256 + of_char c"
  have q: "quantum [v div 262144 mod 64, v div 4096 mod 64, v div 64 mod 64, v mod 64] = [a, b, c]"
    by (rule quantum_val) (rule v_def)
  have "decode [] (EncodeToString (a # b # c # src)) =
        decode [] (encodeStd ! (v div 262144 mod 64) # encodeStd ! (v div 4096 mod 64) #
          encodeStd ! (v div 64 mod 64) # encodeStd ! (v mod 64) # EncodeToString src)"
    by (simp add: v_def Let_def)
  also have "\<dots> = Inr ([a, b, c] @ src)"
    by (subst decode_quad) (simp_all add: 1 q)
  finally show ?case by simp
next
  case (2 a b)
  define v :: nat where "v = of_char a * 65536 + of_char b * 256 + of_char (CHR 0x00)"
  have v': "v = of_char a * 65536 + of_char b * 256" by (simp add: v_def)
  have "v = 64 * (of_char a * 1024 + of_char b * 4)" unfolding v' by simp
  then have z: "v mod 64 = 0" by (simp only: mod_mult_self1_is_0)
  have q: "quantum [v div 262144 mod 64, v div 4096 mod 64, v div 64 mod 64, v mod 64] = [a, b, CHR 0x00]"
    by (rule quantum_val) (rule v_def)
  have "decode [] (EncodeToString [a, b]) =
        decode [] [encodeStd ! (v div 262144 mod 64), encodeStd ! (v div 4096 mod 64),
          encodeStd ! (v div 64 mod 64), CHR ''='']"
    by (simp add: v' Let_def)
  also have "\<dots> = Inr (take 2 (quantum [v div 262144 mod 64, v div 4096 mod 64, v div 64 mod 64, 0]))"
    by (rule decode_pad1) simp_all
  also have "\<dots> = Inr [a, b]"
    using q by (simp add: z)
  finally show ?case .
next
  case (3 a)
  define v :: nat where "v = of_char a * 65536 + of_char (CHR 0x00) * 256 + of_char (CHR 0x00)"
  have v': "v = of_char a * 65536" by (simp add: v_def)
  have "v = 64 * (of_char a * 1024)" unfolding v' by simp
  then have z1: "v mod 64 = 0" by (simp only: mod_mult_self1_is_0)
  have "v div 64 = 64 * (of_char a * 16)" unfolding v' by simp
  then have z2: "v div 64 mod 64 = 0" by (simp only: mod_mult_self1_is_0)
  note z = z1 z2
  have q: "quantum [v div 262144 mod 64, v div 4096 mod 64, v div 64 mod 64, v mod 64] = [a, CHR 0x00, CHR 0x00]"
    by (rule quantum_val) (rule v_def)
  have "decode [] (EncodeToString [a]) =
        decode [] [encodeStd ! (v div 262144 mod 64), encodeStd ! (v div 4096 mod 64),
          CHR ''='', CHR ''='']"
    by (simp add: v' Let_def)
  also have "\<dots> = Inr (take 1 (quantum [v div 262144 mod 64, v div 4096 mod 64, 0, 0]))"
    by (rule decode_pad2) simp_all
  also have "\<dots> = Inr [a]"
    using q by (simp add: z)
  finally show ?case .
next
  case 4
  show ?case by simp
qed




lemma Split_first: "sep \<notin> set u \<Longrightarrow> Split (u @ sep # rest) sep = u # Split rest sep"
  by (induction u) auto


lemma Split_three:
  "sep \<notin> set u \<Longrightarrow> sep \<notin> set p \<Longrightarrow>
   Split (u @ sep # p @ sep # rest) sep = u # p # Split rest sep"
  by (simp add: Split_first)

lemma two_separators:
  "2 \<le> count_list s sep \<Longrightarrow>
   \<exists>u p rest. s = u @ sep # p @ sep # rest \<and> sep \<notin> set u \<and> sep \<notin> set p"
proof -
  assume a: "2 \<le> count_list s sep"
  then have "sep \<in> set s" by (metis count_list_0_iff not_numeral_le_zero)
  then obtain u t where s: "s = u @ sep # t" and u: "sep \<notin> set u"
    by (meson split_list_first)
  have "count_list s sep = Suc (count_list t sep)"
    using u by (simp add: s count_list_0_iff)
  with a have "count_list t sep \<noteq> 0" by simp
  then have "sep \<in> set t" by (simp add: count_list_0_iff)
  then obtain p rest where t: "t = p @ sep # rest" and p: "sep \<notin> set p"
    by (meson split_list_first)
  show ?thesis using s t u p by blast
qed

lemmas creds_defs = repoUser_def repoPass_def repoCreds_def repoCredsFn_def Index_def ApplyT_def attr_def



lemma decode_user_p1_p2: "DecodeString ''dXNlcjpwMTpwMg=='' = Inr ''user:p1:p2''"
proof -
  have e: "''dXNlcjpwMTpwMg=='' = EncodeToString ''user:p1:p2''"
    by (simp add: encodeStd_def)
  show ?thesis unfolding e by (rule DecodeString_EncodeToString)
qed


section \<open>Properties of the image pipeline\<close>




text \<open>
  \<^bold>\<open>C9\<close>. When the decoded token has two or more colons, the step does not fail: the token is
  \<open>u : p : rest\<close> with no colon in \<open>u\<close> and \<open>p\<close>, the username resolves to \<open>u\<close>, the password
  to \<open>p\<close>, and the image that the pass declares is pushed with exactly these two; \<open>rest\<close>
  reaches neither.
\<close>

theorem extra_parts_discarded:
  assumes "LookupVpc env True = Inr vpc" "GetSubnetIds env vpc = Inr ids"
    "\<forall>n. registerError env n = None"
    "attribute env EcrRepositoryName ''RegistryId'' = Inr rid"
    "GetCredentials env rid = Inr token"
    "DecodeString token = Inr data" "2 \<le> count_list data (CHR '':'')"
  shows "\<exists>u p rest img. data = u @ CHR '':'' # p @ CHR '':'' # rest \<and>
    CHR '':'' \<notin> set u \<and> CHR '':'' \<notin> set p \<and>
    resolved (repoCreds env EcrRepositoryName) = Inr (u # p # Split rest (CHR '':'')) \<and>
    resolved (repoUser env EcrRepositoryName) = Inr u \<and>
    resolved (repoPass env EcrRepositoryName) = Inr p \<and>
    declared (snd (main env)) ImageName = Some img \<and>
    field (arg img ''Registry'') ''Username'' =
      Some (POutput (Output [EcrRepositoryName] (Inr (PString u)))) \<and>
    field (arg img ''Registry'') ''Password'' =
      Some (POutput (Output [EcrRepositoryName] (Inr (PString p))))"
proof -
  obtain u p rest where d: "data = u @ CHR '':'' # p @ CHR '':'' # rest"
    and u: "CHR '':'' \<notin> set u" and p: "CHR '':'' \<notin> set p"
    using two_separators [OF assms(7)] by blast
  have r: "resolved (repoCreds env EcrRepositoryName) = Inr (u # p # Split rest (CHR '':''))"
    "resolved (repoUser env EcrRepositoryName) = Inr u"
    "resolved (repoPass env EcrRepositoryName) = Inr p"
    using assms(4-6) by (simp_all add: creds_defs d Split_three [OF u p])
  have dp: "deps (repoUser env EcrRepositoryName) = [EcrRepositoryName]"
    "deps (repoPass env EcrRepositoryName) = [EcrRepositoryName]"
    by (simp_all add: creds_defs)
  have "\<exists>img. declared (snd (main env)) ImageName = Some img \<and>
    field (arg img ''Registry'') ''Username'' = Some (ToStringOutput (repoUser env EcrRepositoryName)) \<and>
    field (arg img ''Registry'') ''Password'' = Some (ToStringOutput (repoPass env EcrRepositoryName))"
    using assms(1-3) unfolding pass_defs declared_def arg_def field_def
    by (simp add: names_defs)
  moreover have "ToStringOutput (repoUser env EcrRepositoryName) =
      POutput (Output [EcrRepositoryName] (Inr (PString u)))"
    "ToStringOutput (repoPass env EcrRepositoryName) =
      POutput (Output [EcrRepositoryName] (Inr (PString p)))"
    using r dp by (simp_all add: ToStringOutput_def ApplyT_def)
  ultimately show ?thesis using d u p r by auto
qed

theorem extra_parts_discarded_witness:
  "\<exists>u p rest img. ''user:p1:p2'' = u @ CHR '':'' # p @ CHR '':'' # rest \<and>
    CHR '':'' \<notin> set u \<and> CHR '':'' \<notin> set p \<and>
    resolved (repoCreds (exampleEnv\<lparr>GetCredentials := \<lambda>rid. Inr ''dXNlcjpwMTpwMg==''\<rparr>)
      EcrRepositoryName) = Inr (u # p # Split rest (CHR '':'')) \<and>
    resolved (repoUser (exampleEnv\<lparr>GetCredentials := \<lambda>rid. Inr ''dXNlcjpwMTpwMg==''\<rparr>)
      EcrRepositoryName) = Inr u \<and>
    resolved (repoPass (exampleEnv\<lparr>GetCredentials := \<lambda>rid. Inr ''dXNlcjpwMTpwMg==''\<rparr>)
      EcrRepositoryName) = Inr p \<and>
    declared (snd (main (exampleEnv\<lparr>GetCredentials := \<lambda>rid. Inr ''dXNlcjpwMTpwMg==''\<rparr>)))
      ImageName = Some img \<and>
    field (arg img ''Registry'') ''Username'' =
      Some (POutput (Output [EcrRepositoryName] (Inr (PString u)))) \<and>
    field (arg img ''Registry'') ''Password'' =
      Some (POutput (Output [EcrRepositoryName] (Inr (PString p))))"
  by (rule extra_parts_discarded [where vpc = "''vpc-1''" and ids = "[''subnet-a'', ''subnet-b'']"
        and rid = "''app-repo.RegistryId''" and token = "''dXNlcjpwMTpwMg==''"])
    (simp_all add: exampleEnv_def decode_user_p1_p2 EcrRepositoryName_def)



section \<open>Properties of the order of realization\<close>

lemma permitted_declared:
  "permitted rs realized sched \<Longrightarrow> n \<in> set sched \<Longrightarrow> \<exists>r. find (\<lambda>r. rname r = n) rs = Some r"
  by (induction sched arbitrary: realized) (auto split: option.splits)

lemma permitted_after:
  "permitted rs realized sched \<Longrightarrow> n \<in> set sched \<Longrightarrow> find (\<lambda>r. rname r = n) rs = Some r \<Longrightarrow>
   d \<in> set (dependsOn r) \<union> set (references r) \<Longrightarrow>
   d \<in> set realized \<union> set (takeWhile (\<lambda>x. x \<noteq> n) sched)"
proof (induction sched arbitrary: realized)
  case Nil
  then show ?case by simp
next
  case (Cons x sched)
  show ?case
  proof (cases "x = n")
    case True
    with Cons.prems show ?thesis by (auto split: option.splits)
  next
    case False
    with Cons.prems have p: "permitted rs (realized @ [x]) sched" and n: "n \<in> set sched"
      by (auto split: option.splits)
    from Cons.IH [OF p n Cons.prems(3,4)] False show ?thesis by auto
  qed
qed


lemma refs_strings: "concat (map refs (map PString ids)) = []"
  by (induction ids) simp_all

lemma service_depends_on_listener:
  assumes "LookupVpc env True = Inr vpc" "GetSubnetIds env vpc = Inr ids"
    "\<forall>n. registerError env n = None"
  shows "\<exists>svc lst. declared (snd (main env)) EcsServiceName = Some svc \<and>
    declared (snd (main env)) LoadBalancerListenerName = Some lst \<and>
    dependsOn svc = [LoadBalancerListenerName] \<and>
    LoadBalancerListenerName \<notin> set (references svc)"
  using assms unfolding pass_defs declared_def
  by (simp add: references_def names_defs toPulumiStringArray_map ToStringOutput_def ApplyT_def
      attr_def refs_strings)

lemma declaration_order_permitted:
  assumes "LookupVpc env True = Inr vpc" "GetSubnetIds env vpc = Inr ids"
    "\<forall>n. registerError env n = None"
  shows "permitted (resources (snd (main env))) [] declarationOrder"
  using assms unfolding pass_defs declarationOrder_def
  by (simp add: references_def names_defs toPulumiStringArray_map ToStringOutput_def ApplyT_def
      attr_def repoUser_def repoPass_def repoCreds_def Index_def refs_strings
      getUnrestrictedEgress_def)

text \<open>
  \<^bold>\<open>C4\<close>. When both lookups succeed and the engine accepts every resource, the pass declares
  the service and the listener; the service's explicit ordering is exactly the listener,
  while no argument of the service refers to an output of the listener. The order of
  declaration is a schedule the engine may follow, and in every schedule the engine may
  follow that realizes the service, the listener is realized before it.
\<close>

theorem listener_before_service:
  assumes "LookupVpc env True = Inr vpc" "GetSubnetIds env vpc = Inr ids"
    "\<forall>n. registerError env n = None"
  shows "\<exists>svc lst.
    declared (snd (main env)) EcsServiceName = Some svc \<and>
    declared (snd (main env)) LoadBalancerListenerName = Some lst \<and>
    dependsOn svc = [LoadBalancerListenerName] \<and>
    LoadBalancerListenerName \<notin> set (references svc) \<and>
    permitted (resources (snd (main env))) [] declarationOrder \<and>
    (\<forall>sched. permitted (resources (snd (main env))) [] sched \<and> EcsServiceName \<in> set sched \<longrightarrow>
       LoadBalancerListenerName \<in> set (takeWhile (\<lambda>n. n \<noteq> EcsServiceName) sched))"
proof -
  obtain svc lst where s: "declared (snd (main env)) EcsServiceName = Some svc"
    and l: "declared (snd (main env)) LoadBalancerListenerName = Some lst"
    and d: "dependsOn svc = [LoadBalancerListenerName]"
      "LoadBalancerListenerName \<notin> set (references svc)"
    using service_depends_on_listener [OF assms] by blast
  from s have f: "find (\<lambda>r. rname r = EcsServiceName) (resources (snd (main env))) = Some svc"
    by (simp add: declared_def)
  have "LoadBalancerListenerName \<in> set (takeWhile (\<lambda>n. n \<noteq> EcsServiceName) sched)"
    if "permitted (resources (snd (main env))) [] sched" "EcsServiceName \<in> set sched" for sched
    using permitted_after [OF that f, of LoadBalancerListenerName] d by simp
  with s l d declaration_order_permitted [OF assms] show ?thesis by blast
qed

theorem listener_before_service_witness:
  "\<exists>svc lst.
    declared (snd (main exampleEnv)) EcsServiceName = Some svc \<and>
    declared (snd (main exampleEnv)) LoadBalancerListenerName = Some lst \<and>
    dependsOn svc = [LoadBalancerListenerName] \<and>
    LoadBalancerListenerName \<notin> set (references svc) \<and>
    permitted (resources (snd (main exampleEnv))) [] declarationOrder \<and>
    LoadBalancerListenerName \<in> set (takeWhile (\<lambda>n. n \<noteq> EcsServiceName) declarationOrder)"
proof -
  from listener_before_service [OF exampleEnv_accepts]
  obtain svc lst where
    a: "declared (snd (main exampleEnv)) EcsServiceName = Some svc"
      "declared (snd (main exampleEnv)) LoadBalancerListenerName = Some lst"
      "dependsOn svc = [LoadBalancerListenerName]"
      "LoadBalancerListenerName \<notin> set (references svc)"
      "permitted (resources (snd (main exampleEnv))) [] declarationOrder"
    and b: "\<forall>sched. permitted (resources (snd (main exampleEnv))) [] sched \<and>
        EcsServiceName \<in> set sched \<longrightarrow>
        LoadBalancerListenerName \<in> set (takeWhile (\<lambda>n. n \<noteq> EcsServiceName) sched)"
    by blast
  have "EcsServiceName \<in> set declarationOrder" by (simp add: declarationOrder_def)
  with a(5) b have "LoadBalancerListenerName \<in> set (takeWhile (\<lambda>n. n \<noteq> EcsServiceName) declarationOrder)"
    by blast
  with a show ?thesis by blast
qed


end
